theory Spec2Isabelle
  imports Complex_Main "HOL-Library.AList"
begin

section \<open>Strings as the worker uses them\<close>

text \<open>
  Column names and cell texts are Python strings. They are modelled as \<open>string\<close>
  (a list of 8-bit characters); \<open>str.upper\<close>, \<open>str.lower\<close> and \<open>str.strip\<close>
  are modelled on the ASCII range, where the completion markers and the column
  aliases live. Characters outside ASCII are left unchanged by the case functions.
\<close>

definition isspace :: "char \<Rightarrow> bool" where
  "isspace c = (c \<in> set [CHR '' '', CHR 0x09, CHR 0x0A, CHR 0x0B, CHR 0x0C, CHR 0x0D,
                          CHR 0x1C, CHR 0x1D, CHR 0x1E, CHR 0x1F])"

definition strip :: "string \<Rightarrow> string" where
  "strip s = rev (dropWhile isspace (rev (dropWhile isspace s)))"

definition upper_char :: "char \<Rightarrow> char" where
  "upper_char c =
     (case map_of (zip ''abcdefghijklmnopqrstuvwxyz'' ''ABCDEFGHIJKLMNOPQRSTUVWXYZ'') c of
        Some u \<Rightarrow> u | None \<Rightarrow> c)"

definition lower_char :: "char \<Rightarrow> char" where
  "lower_char c =
     (case map_of (zip ''ABCDEFGHIJKLMNOPQRSTUVWXYZ'' ''abcdefghijklmnopqrstuvwxyz'') c of
        Some l \<Rightarrow> l | None \<Rightarrow> c)"

definition upper :: "string \<Rightarrow> string" where
  "upper s = map upper_char s"

definition lower :: "string \<Rightarrow> string" where
  "lower s = map lower_char s"

text \<open>\<open>s.replace(a, b)\<close> for one-character \<open>a\<close> and \<open>b\<close>, the only use in the source.\<close>

definition replace_char :: "char \<Rightarrow> char \<Rightarrow> string \<Rightarrow> string" where
  "replace_char a b s = map (\<lambda>c. if c = a then b else c) s"

fun startswith :: "string \<Rightarrow> string \<Rightarrow> bool" where
  "startswith s [] = True"
| "startswith [] (p # ps) = False"
| "startswith (c # cs) (p # ps) = (c = p \<and> startswith cs ps)"

text \<open>\<open>contains s sub\<close> is Python's \<open>sub in s\<close> on strings.\<close>

fun contains :: "string \<Rightarrow> string \<Rightarrow> bool" where
  "contains [] sub = (sub = [])"
| "contains (c # cs) sub = (startswith (c # cs) sub \<or> contains cs sub)"

section \<open>Tables\<close>

text \<open>
  A cell of a pandas DataFrame is either missing (\<open>NaN\<close>) or a value; the source reads
  cells only through \<open>astype(str)\<close> and \<open>pd.isna\<close>, so a value is kept as the text
  that \<open>str\<close> gives for it.
\<close>

datatype cell = NaN | Val string

definition astype_str :: "cell \<Rightarrow> string" where
  "astype_str c = (case c of NaN \<Rightarrow> ''nan'' | Val s \<Rightarrow> s)"

text \<open>
  A DataFrame: the column labels in order, and the rows in order, each with its index
  label and its cells keyed by column label. Filtering rows keeps their index labels,
  as pandas does; that label is the row identifier used for the status write-back.
\<close>

type_synonym row = "nat \<times> (string \<times> cell) list"

record frame =
  columns :: "string list"
  rows :: "row list"

definition cell_at :: "(string \<times> cell) list \<Rightarrow> string \<Rightarrow> cell" where
  "cell_at r c = (case map_of r c of Some v \<Rightarrow> v | None \<Rightarrow> NaN)"

text \<open>
  The content of a spreadsheet or CSV file: the column labels that the reader gives
  for the header line (pandas reads an empty header cell as \<open>Unnamed: k\<close> and numbers
  a repeated label), and the cells of each line, each as the text that \<open>str\<close> gives
  for the value read, the empty text for an empty cell. The byte encoding itself
  (openpyxl, the CSV codecs) is outside the repository; \<open>Unreadable\<close> stands for bytes
  that none of the readers tried by \<open>load_spreadsheet\<close> accepts.
\<close>

record sheet =
  header :: "string list"
  body :: "string list list"

datatype file_bytes = Unreadable | Table sheet

text \<open>The texts pandas reads as a missing value (\<open>keep_default_na\<close>).\<close>

definition STR_NA_VALUES :: "string list" where
  "STR_NA_VALUES = ['''', ''#N/A'', ''#N/A N/A'', ''#NA'', ''-1.#IND'', ''-1.#QNAN'', ''-NaN'',
     ''-nan'', ''1.#IND'', ''1.#QNAN'', ''<NA>'', ''N/A'', ''NA'', ''NULL'', ''NaN'', ''None'',
     ''n/a'', ''nan'', ''null'']"

definition read_cell :: "string \<Rightarrow> cell" where
  "read_cell t = (if t \<in> set STR_NA_VALUES then NaN else Val t)"

definition write_cell :: "cell \<Rightarrow> string" where
  "write_cell c = (case c of NaN \<Rightarrow> '''' | Val s \<Rightarrow> s)"

text \<open>
  \<open>pd.read_excel\<close> / \<open>pd.read_csv\<close>: the rows get the index labels 0, 1, 2, ...;
  a short line is padded with empty cells.
\<close>

definition read_row :: "string list \<Rightarrow> string list \<Rightarrow> (string \<times> cell) list" where
  "read_row hdr ts = zip hdr (map read_cell (take (length hdr) (ts @ replicate (length hdr) '''')))"

definition read_table :: "sheet \<Rightarrow> frame" where
  "read_table s =
     \<lparr>columns = header s,
      rows = zip [0 ..< length (body s)] (map (read_row (header s)) (body s))\<rparr>"

text \<open>\<open>df.to_excel(output, index=False)\<close>: the index is not written, \<open>NaN\<close> is written empty.\<close>

definition to_excel :: "frame \<Rightarrow> sheet" where
  "to_excel df =
     \<lparr>header = columns df,
      body = map (\<lambda>(i, r). map (\<lambda>c. write_cell (cell_at r c)) (columns df)) (rows df)\<rparr>"

datatype error =
    ValueError string
  | AttributeError string
  | WebDriverException string

text \<open>
  \<open>df[c]\<close> is a Series only when the label \<open>c\<close> occurs once among the columns; with a
  repeated label pandas gives a DataFrame, and the source's next step on it
  (\<open>.str\<close>, or \<open>not\<close> of its \<open>.all()\<close>) raises.
\<close>

definition unique_label :: "frame \<Rightarrow> string \<Rightarrow> bool" where
  "unique_label df c = (length (filter (\<lambda>n. n = c) (columns df)) = 1)"

text \<open>\<open>df[c] = f(row)\<close>: an existing column is overwritten in place, a new one is appended.\<close>

definition set_column :: "string \<Rightarrow> ((string \<times> cell) list \<Rightarrow> cell) \<Rightarrow> frame \<Rightarrow> frame" where
  "set_column c f df =
     \<lparr>columns = (if c \<in> set (columns df) then columns df else columns df @ [c]),
      rows = map (\<lambda>(i, r). (i, AList.update c (f r) r)) (rows df)\<rparr>"

section \<open>Column detection\<close>

text \<open>\<open>XCommentBot._normalize\<close>; its argument is always a string here.\<close>

definition normalize :: "string \<Rightarrow> string" where
  "normalize col = replace_char CHR ''-'' CHR ''_'' (replace_char CHR '' '' CHR ''_'' (lower (strip col)))"

text \<open>\<open>XCommentBot._detect_column\<close>: the candidates in column order, the first one returned.\<close>

definition is_candidate :: "string \<Rightarrow> string \<Rightarrow> bool" where
  "is_candidate want norm_col =
     (if want = ''url'' then
        (if norm_col \<in> set [''url'', ''posturl'', ''tweet_url'', ''link'', ''post_link''] then True
         else contains norm_col ''url'' \<and> (contains norm_col ''post'' \<or> contains norm_col ''tweet'' \<or> norm_col = ''url''))
      else if want = ''comment'' then
        (if norm_col \<in> set [''generated_comment'', ''comment'', ''reply'', ''comment_text'', ''generatedcomment'']
         then True
         else contains norm_col ''comment'' \<or> contains norm_col ''reply''
              \<or> (contains norm_col ''generated'' \<and> contains norm_col ''comment''))
      else False)"

definition detect_column :: "string list \<Rightarrow> string list \<Rightarrow> string \<Rightarrow> string option" where
  "detect_column norm_cols raw_cols want =
     (let candidates = map snd (filter (\<lambda>(norm_col, raw). is_candidate want norm_col) (zip norm_cols raw_cols))
      in if length candidates > 0 then Some (hd candidates) else None)"

section \<open>The bot's state\<close>

datatype ostatus = Success | Failed

text \<open>
  The dictionary that \<open>process_single_post\<close> returns, as \<open>process_posts\<close> and
  \<open>generate_summary_report\<close> read it. Its \<open>timestamp\<close> entry reads the wall clock and
  is left out.
\<close>

record outcome =
  post_number :: nat
  original_index :: nat
  url :: string
  comment :: string
  status :: ostatus
  message :: string

text \<open>
  What the bot does to the outside world, in order: the creation of the driver, the
  login pages, the streamed log lines \<open>"Final count - n rows will be processed"\<close> and
  \<open>"Processing post k/n (Original Index: idx)"\<close> (the latter stands directly before the
  call of \<open>process_single_post\<close>), the progress notification, the pacing sleep between
  two posts, the call of \<open>cleanup\<close> and the call of \<open>driver.quit()\<close>.
\<close>

datatype event =
    DriverCreated
  | OpenLogin
  | LoginCheck bool
  | FinalCount nat
  | ItemCall nat nat
  | Progress nat nat
  | Pace
  | CleanupCalled
  | DriverQuit

record bot =
  delay :: real
  headless :: bool
  driver :: bool
  results :: "outcome list"
  original_df :: "frame option"
  status_col_name :: "string option"
  events :: "event list"

text \<open>\<open>XCommentBot.__init__\<close>.\<close>

definition new_bot :: bot where
  "new_bot = \<lparr>delay = 2, headless = False, driver = False, results = [], original_df = None,
              status_col_name = None, events = []\<rparr>"

definition emit :: "event \<Rightarrow> bot \<Rightarrow> bot" where
  "emit e b = b\<lparr>events := events b @ [e]\<rparr>"

section \<open>Row Ledger: loading\<close>

definition read_bytes :: "file_bytes \<Rightarrow> frame option" where
  "read_bytes f = (case f of Unreadable \<Rightarrow> None | Table s \<Rightarrow> Some (read_table s))"

text \<open>\<open>df.columns = [str(col).strip() for col in df.columns]\<close>\<close>

definition strip_columns :: "frame \<Rightarrow> frame" where
  "strip_columns df =
     \<lparr>columns = map strip (columns df),
      rows = map (\<lambda>(i, r). (i, map (\<lambda>(n, v). (strip n, v)) r)) (rows df)\<rparr>"

definition all_na :: "frame \<Rightarrow> string \<Rightarrow> bool" where
  "all_na df c = list_all (\<lambda>(i, r). cell_at r c = NaN) (rows df)"

text \<open>
  \<open>df.loc[:, [c for c in df.columns if not (str(c).startswith("Unnamed") and pd.isna(df[c]).all())]]\<close>:
  the columns named \<open>Unnamed...\<close> whose cells are all missing are dropped. Selecting
  by a list of labels gives, for each label listed, every column that carries it.
\<close>

definition drop_unnamed :: "frame \<Rightarrow> error + frame" where
  "drop_unnamed df =
     (if list_ex (\<lambda>c. startswith c ''Unnamed'' \<and> \<not> unique_label df c) (columns df)
      then Inl (ValueError ''The truth value of a Series is ambiguous'')
      else
        let keep = (\<lambda>c. \<not> (startswith c ''Unnamed'' \<and> all_na df c))
        in Inr \<lparr>columns = concat (map (\<lambda>c. filter (\<lambda>d. d = c) (columns df))
                                          (filter keep (columns df))),
                rows = map (\<lambda>(i, r). (i, filter (\<lambda>(n, v). keep n) r)) (rows df)\<rparr>)"

definition no_str_accessor :: error where
  "no_str_accessor = AttributeError ''DataFrame object has no attribute str''"

text \<open>The two standardised columns \<open>URL\<close> and \<open>generated_comment\<close>.\<close>

definition url_text :: "cell \<Rightarrow> string" where
  "url_text c = strip (astype_str c)"

definition comment_text :: "cell \<Rightarrow> string" where
  "comment_text c =
     strip (replace_char (CHR 0x0D) CHR '' '' (replace_char (CHR 0x0A) CHR '' '' (astype_str c)))"

definition standardize :: "frame \<Rightarrow> string \<Rightarrow> string \<Rightarrow> error + frame" where
  "standardize df url_col comment_col =
     (if \<not> unique_label df url_col then Inl no_str_accessor
      else
        let df1 = set_column ''URL'' (\<lambda>r. Val (url_text (cell_at r url_col))) df
        in if \<not> unique_label df1 comment_col then Inl no_str_accessor
           else Inr (set_column ''generated_comment''
                       (\<lambda>r. Val (comment_text (cell_at r comment_col))) df1))"

definition status_candidates :: "string list" where
  "status_candidates = [''commented_(y/n)'', ''commented'', ''done'', ''posted'', ''status'']"

definition detect_status :: "string list \<Rightarrow> string list \<Rightarrow> string" where
  "detect_status norm_cols raw_cols =
     (case filter (\<lambda>(norm_col, raw). norm_col \<in> set status_candidates) (zip norm_cols raw_cols) of
        [] \<Rightarrow> ''Commented (Y/N)''
      | (norm_col, raw) # _ \<Rightarrow> raw)"

definition ensure_column :: "string \<Rightarrow> frame \<Rightarrow> frame" where
  "ensure_column c df = (if c \<in> set (columns df) then df else set_column c (\<lambda>r. Val []) df)"

text \<open>The filter on blank and \<open>nan\<close> values, one row at a time.\<close>

definition usable :: "(string \<times> cell) list \<Rightarrow> bool" where
  "usable r =
     (length (astype_str (cell_at r ''URL'')) > 0
      \<and> length (astype_str (cell_at r ''generated_comment'')) > 0
      \<and> lower (astype_str (cell_at r ''URL'')) \<noteq> ''nan''
      \<and> lower (astype_str (cell_at r ''generated_comment'')) \<noteq> ''nan'')"

definition dropna :: "string list \<Rightarrow> frame \<Rightarrow> frame" where
  "dropna names df =
     df\<lparr>rows := filter (\<lambda>(i, r). list_all (\<lambda>c. cell_at r c \<noteq> NaN) names) (rows df)\<rparr>"

definition clean :: "frame \<Rightarrow> error + frame" where
  "clean df =
     (let df1 = dropna [''URL'', ''generated_comment''] df
      in if \<not> unique_label df1 ''URL'' \<or> \<not> unique_label df1 ''generated_comment''
         then Inl no_str_accessor
         else Inr (df1\<lparr>rows := filter (\<lambda>(i, r). usable r) (rows df1)\<rparr>))"

definition completion_markers :: "string list" where
  "completion_markers = [''Y'', ''YES'', ''TRUE'', ''1'']"

definition already :: "cell \<Rightarrow> bool" where
  "already c = (strip (upper (astype_str c)) \<in> set completion_markers)"

definition filter_already :: "string \<Rightarrow> frame \<Rightarrow> error + frame" where
  "filter_already status_col df =
     (if status_col \<in> set (columns df) then
        (if \<not> unique_label df status_col then Inl no_str_accessor
         else Inr (df\<lparr>rows := filter (\<lambda>(i, r). \<not> already (cell_at r status_col)) (rows df)\<rparr>))
      else Inr df)"

fun join :: "string \<Rightarrow> string list \<Rightarrow> string" where
  "join sep [] = []"
| "join sep [x] = x"
| "join sep (x # y # ys) = x @ sep @ join sep (y # ys)"

definition missing_columns :: "string option \<Rightarrow> string option \<Rightarrow> string list" where
  "missing_columns url_col comment_col =
     (if url_col = None then [''URL-like column (e.g., postUrl/url/link)''] else [])
     @ (if comment_col = None
        then [''comment-like column (e.g., Generated comment / comment / reply)''] else [])"

definition schema_error :: "string option \<Rightarrow> string option \<Rightarrow> error" where
  "schema_error url_col comment_col =
     ValueError (''Could not detect required columns: '' @ join '', '' (missing_columns url_col comment_col))"

text \<open>
  \<open>XCommentBot.load_spreadsheet\<close>. The result is the filtered DataFrame or the exception
  raised, together with the bot as the call leaves it: \<open>original_df\<close> is assigned before
  the column names are stripped, and stays assigned when a later step raises. When no
  reader accepts the bytes, \<open>df\<close> is still \<open>None\<close> at \<open>df.copy()\<close>.
\<close>

definition load_spreadsheet :: "file_bytes \<Rightarrow> bot \<Rightarrow> (error + frame) \<times> bot" where
  "load_spreadsheet sheet_input b =
     (case read_bytes sheet_input of
        None \<Rightarrow> (Inl (AttributeError ''NoneType object has no attribute copy''), b)
      | Some df0 \<Rightarrow>
          let b1 = b\<lparr>original_df := Some df0\<rparr> in
          (case drop_unnamed (strip_columns df0) of
             Inl e \<Rightarrow> (Inl e, b1)
           | Inr df \<Rightarrow>
               let raw_cols = columns df;
                   norm_cols = map normalize raw_cols;
                   url_col = detect_column norm_cols raw_cols ''url'';
                   comment_col = detect_column norm_cols raw_cols ''comment''
               in if url_col = None \<or> comment_col = None
                  then (Inl (schema_error url_col comment_col), b1)
                  else
                    (case standardize df (the url_col) (the comment_col) of
                       Inl e \<Rightarrow> (Inl e, b1)
                     | Inr df2 \<Rightarrow>
                         let status_col = detect_status norm_cols raw_cols;
                             b2 = b1\<lparr>original_df := Some (ensure_column status_col df0),
                                     status_col_name := Some status_col\<rparr>
                         in (case clean df2 of
                               Inl e \<Rightarrow> (Inl e, b2)
                             | Inr df3 \<Rightarrow>
                                 (case filter_already status_col df3 of
                                    Inl e \<Rightarrow> (Inl e, b2)
                                  | Inr df4 \<Rightarrow>
                                      (Inr df4, emit (FinalCount (length (rows df4))) b2))))))"

section \<open>Row Ledger: marking and serialising\<close>

text \<open>
  \<open>XCommentBot.update_excel_file\<close>: the status cell of the row labelled \<open>row_index\<close>
  in the retained copy is set; an absent label only logs a warning.
\<close>

definition set_cell :: "nat \<Rightarrow> string \<Rightarrow> cell \<Rightarrow> frame \<Rightarrow> frame" where
  "set_cell row_index c v df =
     df\<lparr>rows := map (\<lambda>(i, r). if i = row_index then (i, AList.update c v r) else (i, r)) (rows df)\<rparr>"

definition update_excel_file :: "nat \<Rightarrow> string \<Rightarrow> bot \<Rightarrow> bot" where
  "update_excel_file row_index st b =
     (case original_df b of
        None \<Rightarrow> b
      | Some odf \<Rightarrow>
          let status_col = (case status_col_name b of Some c \<Rightarrow> c | None \<Rightarrow> ''Commented (Y/N)'');
              odf1 = ensure_column status_col odf
          in if row_index \<in> set (map fst (rows odf1))
             then b\<lparr>original_df := Some (set_cell row_index status_col (Val st) odf1)\<rparr>
             else b\<lparr>original_df := Some odf1\<rparr>)"

text \<open>\<open>XCommentBot.get_updated_file_bytes\<close>; \<open>None\<close> is the empty byte string.\<close>

definition get_updated_file_bytes :: "bot \<Rightarrow> sheet option" where
  "get_updated_file_bytes b = (case original_df b of None \<Rightarrow> None | Some odf \<Rightarrow> Some (to_excel odf))"

section \<open>The browser as an environment\<close>

text \<open>
  Everything the browser, the network and the random generator decide is read from a
  \<open>world\<close>: how the driver setup ends, whether the pages load, whether the login is
  confirmed, what each call of \<open>process_single_post\<close> gives back, and the draws of
  \<open>random.uniform(0.5, 1.5)\<close> (the one after post \<open>k\<close> is \<open>uniform w k\<close>). Selenium's
  exceptions are subclasses of \<open>Exception\<close>; each carries its text.

  The retry loop of \<open>process_single_post\<close> is not a well-formed statement: its
  \<open>finally:\<close> clause follows an \<open>if\<close> statement that stands at the indentation of
  \<open>try\<close> and so ends the \<open>try\<close> statement. No behaviour is derived from that text.
  The call is an answer of the environment, for the arguments it is given: the
  dictionary it returns, or the exception it raises.
\<close>

datatype setup_outcome = SetupOk | ChromeFails string | ScriptFails string

record world =
  chrome :: setup_outcome
  login_page :: "string option"
  home_page :: "string option"
  page_confirms :: bool
  ui_confirms :: bool
  item_processor :: "string \<Rightarrow> string \<Rightarrow> nat \<Rightarrow> nat \<Rightarrow> error + outcome"
  uniform :: "nat \<Rightarrow> real"

section \<open>Batch Runner\<close>

text \<open>
  The loop of \<open>process_posts\<close> over \<open>enumerate(df.iterrows())\<close>; \<open>k\<close> is
  \<open>current_post_idx\<close> and \<open>n_posts\<close> is \<open>len(df)\<close>. The cells of the two standardised
  columns are strings. The loop has no \<open>try\<close>: an exception of the call of
  \<open>process_single_post\<close> leaves it, and so does the \<open>ValueError\<close> that \<open>time.sleep\<close>
  raises for a negative \<open>delay_time\<close>.
\<close>

fun post_loop :: "world \<Rightarrow> nat \<Rightarrow> nat \<Rightarrow> row list \<Rightarrow> bot \<Rightarrow> (error + unit) \<times> bot" where
  "post_loop w n_posts k [] b = (Inr (), b)"
| "post_loop w n_posts k ((idx, r) # rest) b =
     (let current_post = k + 1;
          b1 = emit (ItemCall current_post idx) b
      in case item_processor w (astype_str (cell_at r ''URL''))
                (astype_str (cell_at r ''generated_comment'')) current_post idx of
           Inl e \<Rightarrow> (Inl e, b1)
         | Inr result \<Rightarrow>
             let b2 = b1\<lparr>results := results b1 @ [result]\<rparr>;
                 b3 = update_excel_file idx (if status result = Success then ''Y'' else ''N'') b2;
                 b4 = emit (Progress current_post n_posts) b3
             in if current_post < n_posts then
                  (let delay_time = delay b4 + uniform w current_post
                   in if delay_time < 0
                      then (Inl (ValueError ''sleep length must be non-negative''), b4)
                      else post_loop w n_posts (k + 1) rest (emit Pace b4))
                else post_loop w n_posts (k + 1) rest b4)"

definition process_posts :: "world \<Rightarrow> frame \<Rightarrow> bot \<Rightarrow> (error + unit) \<times> bot" where
  "process_posts w df b =
     (if length (rows df) = 0 then (Inr (), b) else post_loop w (length (rows df)) 0 (rows df) b)"

section \<open>Session Controller and the run of one job\<close>

text \<open>\<open>setup_chrome_driver\<close>: \<open>self.driver\<close> is assigned once \<open>webdriver.Chrome\<close> returns.\<close>

definition setup_chrome_driver :: "world \<Rightarrow> bot \<Rightarrow> (error + unit) \<times> bot" where
  "setup_chrome_driver w b =
     (case chrome w of
        ChromeFails e \<Rightarrow> (Inl (WebDriverException e), b)
      | ScriptFails e \<Rightarrow> (Inl (WebDriverException e), emit DriverCreated (b\<lparr>driver := True\<rparr>))
      | SetupOk \<Rightarrow> (Inr (), emit DriverCreated (b\<lparr>driver := True\<rparr>)))"

definition navigate_to_login :: "world \<Rightarrow> bot \<Rightarrow> (error + unit) \<times> bot" where
  "navigate_to_login w b =
     (case login_page w of
        Some e \<Rightarrow> (Inl (WebDriverException e), b)
      | None \<Rightarrow> (Inr (), emit OpenLogin b))"

text \<open>
  \<open>wait_for_manual_login_ui\<close>. Headless: one load of the home page, outside any
  \<open>try\<close>, and one pass of \<open>confirm_login\<close>. Otherwise the overlay loop, which ends
  with \<open>True\<close> on a confirmation and with \<open>False\<close> on the 15 minute timeout or any
  exception; \<open>ui_confirms\<close> is how it ends.
\<close>

definition wait_for_manual_login :: "world \<Rightarrow> bot \<Rightarrow> (error + bool) \<times> bot" where
  "wait_for_manual_login w b =
     (if headless b then
        (case home_page w of
           Some e \<Rightarrow> (Inl (WebDriverException e), emit (LoginCheck True) b)
         | None \<Rightarrow> (Inr (page_confirms w), emit (LoginCheck True) b))
      else (Inr (ui_confirms w), emit (LoginCheck False) b))"

text \<open>
  \<open>cleanup\<close>: \<open>driver.quit()\<close> is called when a driver exists; what it raises is caught
  and logged.
\<close>

definition cleanup :: "bot \<Rightarrow> bot" where
  "cleanup b =
     (let b1 = emit CleanupCalled b
      in if driver b1 then emit DriverQuit b1 else b1)"

datatype summary = LoginFailedText | NoPostsText | Report nat nat | FatalError error | OtherText string

definition successful :: "bot \<Rightarrow> nat" where
  "successful b = length (filter (\<lambda>r. status r = Success) (results b))"

definition generate_summary_report :: "bot \<Rightarrow> summary" where
  "generate_summary_report b = Report (length (results b)) (successful b)"

text \<open>The \<open>try\<close> block of \<open>XCommentBot.run\<close>: an exit code with its summary, or the exception.\<close>

definition run_body :: "world \<Rightarrow> file_bytes \<Rightarrow> bot \<Rightarrow> (error + nat \<times> summary) \<times> bot" where
  "run_body w sheet_data_bytes b =
     (case setup_chrome_driver w b of
        (Inl e, b1) \<Rightarrow> (Inl e, b1)
      | (Inr _, b1) \<Rightarrow>
          (case navigate_to_login w b1 of
             (Inl e, b2) \<Rightarrow> (Inl e, b2)
           | (Inr _, b2) \<Rightarrow>
               (case wait_for_manual_login w b2 of
                  (Inl e, b3) \<Rightarrow> (Inl e, b3)
                | (Inr ok, b3) \<Rightarrow>
                    if \<not> ok then (Inr (2, LoginFailedText), b3)
                    else
                      (case load_spreadsheet sheet_data_bytes b3 of
                         (Inl e, b4) \<Rightarrow> (Inl e, b4)
                       | (Inr df, b4) \<Rightarrow>
                           if length (rows df) = 0 then (Inr (4, NoPostsText), b4)
                           else
                             (case process_posts w df b4 of
                                (Inl e, b5) \<Rightarrow> (Inl e, b5)
                              | (Inr _, b5) \<Rightarrow>
                                  (Inr (if successful b5 > 0 then 0 else 3,
                                        generate_summary_report b5), b5))))))"

text \<open>
  \<open>XCommentBot.run\<close>: the arguments are stored, the \<open>except Exception\<close> handler gives
  exit code 1, and \<open>finally\<close> runs \<open>cleanup\<close>.
\<close>

definition run :: "file_bytes \<Rightarrow> real \<Rightarrow> bool \<Rightarrow> world \<Rightarrow> bot \<Rightarrow> (nat \<times> summary) \<times> bot" where
  "run sheet_data_bytes dl hl w b =
     (case run_body w sheet_data_bytes (b\<lparr>delay := dl, headless := hl\<rparr>) of
        (Inl e, b1) \<Rightarrow> ((1, FatalError e), cleanup b1)
      | (Inr ret, b1) \<Rightarrow> (ret, cleanup b1))"

section \<open>Job Worker Loop\<close>

datatype job_status = RUNNING | COMPLETED | FAILED






definition final_status_of :: "nat \<Rightarrow> job_status" where
  "final_status_of exit_code =
     (if exit_code = 0 then COMPLETED else if exit_code = 4 then COMPLETED else FAILED)"





section \<open>Observations on a trace\<close>

text \<open>The calls of \<open>process_single_post\<close> in a trace, as (post number, row label), in order.\<close>

definition item_calls :: "event list \<Rightarrow> (nat \<times> nat) list" where
  "item_calls es = concat (map (\<lambda>e. case e of ItemCall n idx \<Rightarrow> [(n, idx)] | _ \<Rightarrow> []) es)"

text \<open>
  The driver's creation and quit, the call of \<open>cleanup\<close> and the final-count log line
  of a trace, in order.
\<close>

definition milestones :: "event list \<Rightarrow> event list" where
  "milestones es =
     filter (\<lambda>e. case e of DriverCreated \<Rightarrow> True | DriverQuit \<Rightarrow> True | CleanupCalled \<Rightarrow> True
                  | FinalCount k \<Rightarrow> True | _ \<Rightarrow> False) es"

text \<open>
  The creation of the driver, the call of \<open>cleanup\<close> and the call of \<open>driver.quit()\<close>
  of a trace, in order.
\<close>

definition lifecycle :: "event list \<Rightarrow> event list" where
  "lifecycle es = filter (\<lambda>e. e \<in> set [DriverCreated, CleanupCalled, DriverQuit]) es"

section \<open>Example inputs\<close>

text \<open>
  An item processor that answers post \<open>n\<close> as \<open>f n\<close> says: with the exception, or with
  a record of the given status for the arguments of the call.
\<close>

definition answers :: "(nat \<Rightarrow> error + ostatus) \<Rightarrow> string \<Rightarrow> string \<Rightarrow> nat \<Rightarrow> nat \<Rightarrow> error + outcome" where
  "answers f u c n idx =
     (case f n of
        Inl e \<Rightarrow> Inl e
      | Inr st \<Rightarrow> Inr \<lparr>post_number = n, original_index = idx, url = u, comment = c,
                       status = st, message = []\<rparr>)"

text \<open>A browser in which setup and login succeed and every draw of the generator is 1.\<close>

definition quiet_world :: "(nat \<Rightarrow> error + ostatus) \<Rightarrow> world" where
  "quiet_world f =
     \<lparr>chrome = SetupOk, login_page = None, home_page = None, page_confirms = True,
      ui_confirms = True, item_processor = answers f, uniform = (\<lambda>k. 1)\<rparr>"

text \<open>
  A sheet of three rows, the first already marked \<open>Y\<close>, and the WorkSet that
  \<open>load_spreadsheet\<close> derives from it; a browser in which post 1 succeeds and every
  other post fails.
\<close>

definition sample_sheet :: sheet where
  "sample_sheet =
     \<lparr>header = [''url'', ''comment'', ''Status''],
      body = [[''http://x/1'', ''one'', ''Y''], [''http://x/2'', ''two'', ''''],
              [''http://x/3'', ''three'', '''']]\<rparr>"

definition sample_workset :: frame where
  "sample_workset =
     \<lparr>columns = [''url'', ''comment'', ''Status'', ''URL'', ''generated_comment''],
      rows = [(1, [(''url'', Val ''http://x/2''), (''comment'', Val ''two''), (''Status'', NaN),
                   (''URL'', Val ''http://x/2''), (''generated_comment'', Val ''two'')]),
              (2, [(''url'', Val ''http://x/3''), (''comment'', Val ''three''), (''Status'', NaN),
                   (''URL'', Val ''http://x/3''), (''generated_comment'', Val ''three'')])]\<rparr>"

definition sample_world :: world where
  "sample_world = quiet_world (\<lambda>n. if n = 1 then Inr Success else Inr Failed)"



text \<open>A sheet whose status header ends in a space, with one row not yet commented.\<close>

definition padded_sheet :: sheet where
  "padded_sheet = \<lparr>header = [''url'', ''comment'', ''Status ''], body = [[''http://b'', ''yo'', []]]\<rparr>"





text \<open>A machine on which Chrome does not start: \<open>webdriver.Chrome\<close> raises.\<close>

definition no_chrome_world :: world where
  "no_chrome_world = sample_world\<lparr>chrome := ChromeFails ''session not created''\<rparr>"

section \<open>What a run leaves in the trace\<close>

lemma events_emit [simp]: "events (emit e b) = events b @ [e]"
  by (simp add: emit_def)

lemma results_emit [simp]: "results (emit e b) = results b"
  by (simp add: emit_def)

lemma original_df_emit [simp]: "original_df (emit e b) = original_df b"
  by (simp add: emit_def)

lemma status_col_name_emit [simp]: "status_col_name (emit e b) = status_col_name b"
  by (simp add: emit_def)

lemma driver_emit [simp]: "driver (emit e b) = driver b"
  by (simp add: emit_def)

lemma headless_emit [simp]: "headless (emit e b) = headless b"
  by (simp add: emit_def)

lemma delay_emit [simp]: "delay (emit e b) = delay b"
  by (simp add: emit_def)

lemma milestones_simps [simp]:
  "milestones [] = []"
  "milestones (xs @ ys) = milestones xs @ milestones ys"
  "milestones (e # es) =
     (case e of DriverCreated \<Rightarrow> [e] | DriverQuit \<Rightarrow> [e] | CleanupCalled \<Rightarrow> [e]
      | FinalCount k \<Rightarrow> [e] | _ \<Rightarrow> [])
     @ milestones es"
  by (simp_all add: milestones_def split: event.splits)

lemma lifecycle_simps [simp]:
  "lifecycle [] = []"
  "lifecycle (xs @ ys) = lifecycle xs @ lifecycle ys"
  "lifecycle (e # es) =
     (case e of DriverCreated \<Rightarrow> [e] | DriverQuit \<Rightarrow> [e] | CleanupCalled \<Rightarrow> [e] | _ \<Rightarrow> [])
     @ lifecycle es"
  by (simp_all add: lifecycle_def split: event.splits)

lemma lifecycle_milestones: "lifecycle (milestones es) = lifecycle es"
  by (induction es) (simp_all split: event.splits)


lemma cleanup_call_milestones:
  "CleanupCalled \<in> set (milestones es) \<longleftrightarrow> CleanupCalled \<in> set es"
  by (induction es) (auto split: event.splits)

lemma update_excel_file_keeps [simp]:
  "driver (update_excel_file i st b) = driver b"
  "events (update_excel_file i st b) = events b"
  "results (update_excel_file i st b) = results b"
  "delay (update_excel_file i st b) = delay b"
  "status_col_name (update_excel_file i st b) = status_col_name b"
  by (simp_all add: update_excel_file_def Let_def split: option.splits)

lemma post_loop_milestones:
  "milestones (events (snd (post_loop w n_posts k rs b))) = milestones (events b)"
proof (induction rs arbitrary: k b)
  case Nil
  then show ?case by simp
next
  case (Cons x rs)
  obtain idx r where x: "x = (idx, r)" by (cases x)
  show ?case
    by (simp add: x Let_def Cons.IH split: sum.split)
qed

lemma post_loop_driver:
  "driver (snd (post_loop w n_posts k rs b)) = driver b"
proof (induction rs arbitrary: k b)
  case Nil
  then show ?case by simp
next
  case (Cons x rs)
  obtain idx r where x: "x = (idx, r)" by (cases x)
  show ?case
    by (simp add: x Let_def Cons.IH split: sum.split)
qed

lemma process_posts_keeps [simp]:
  "milestones (events (snd (process_posts w df b))) = milestones (events b)"
  "driver (snd (process_posts w df b)) = driver b"
  by (simp_all add: process_posts_def post_loop_milestones post_loop_driver)

lemma load_spreadsheet_events:
  "events (snd (load_spreadsheet f b))
     = events b @ (case fst (load_spreadsheet f b) of
                     Inl e \<Rightarrow> [] | Inr ws \<Rightarrow> [FinalCount (length (rows ws))])"
  by (simp add: load_spreadsheet_def Let_def split: option.splits sum.splits)

lemma load_spreadsheet_keeps [simp]:
  "driver (snd (load_spreadsheet f b)) = driver b"
  "results (snd (load_spreadsheet f b)) = results b"
  "headless (snd (load_spreadsheet f b)) = headless b"
  "delay (snd (load_spreadsheet f b)) = delay b"
  by (simp_all add: load_spreadsheet_def Let_def split: option.splits sum.splits)

lemma run_body_unfold:
  "run_body w f b =
     (let s1 = setup_chrome_driver w b in
      case fst s1 of
        Inl e \<Rightarrow> (Inl e, snd s1)
      | Inr u \<Rightarrow>
          let s2 = navigate_to_login w (snd s1) in
          (case fst s2 of
             Inl e \<Rightarrow> (Inl e, snd s2)
           | Inr u \<Rightarrow>
               let s3 = wait_for_manual_login w (snd s2) in
               (case fst s3 of
                  Inl e \<Rightarrow> (Inl e, snd s3)
                | Inr ok \<Rightarrow>
                    if \<not> ok then (Inr (2, LoginFailedText), snd s3)
                    else
                      let s4 = load_spreadsheet f (snd s3) in
                      (case fst s4 of
                         Inl e \<Rightarrow> (Inl e, snd s4)
                       | Inr df \<Rightarrow>
                           if length (rows df) = 0 then (Inr (4, NoPostsText), snd s4)
                           else
                             let s5 = process_posts w df (snd s4) in
                             (case fst s5 of
                                Inl e \<Rightarrow> (Inl e, snd s5)
                              | Inr u \<Rightarrow>
                                  (Inr (if successful (snd s5) > 0 then 0 else 3,
                                        generate_summary_report (snd s5)), snd s5))))))"
  by (simp add: run_body_def Let_def split: prod.splits sum.splits)

lemma setup_chrome_driver_simps:
  "fst (setup_chrome_driver w b) =
     (case chrome w of SetupOk \<Rightarrow> Inr () | ChromeFails e \<Rightarrow> Inl (WebDriverException e)
      | ScriptFails e \<Rightarrow> Inl (WebDriverException e))"
  "driver (snd (setup_chrome_driver w b)) = (case chrome w of ChromeFails e \<Rightarrow> driver b | _ \<Rightarrow> True)"
  "events (snd (setup_chrome_driver w b)) =
     events b @ (case chrome w of ChromeFails e \<Rightarrow> [] | _ \<Rightarrow> [DriverCreated])"
  "results (snd (setup_chrome_driver w b)) = results b"
  "headless (snd (setup_chrome_driver w b)) = headless b"
  by (simp_all add: setup_chrome_driver_def split: setup_outcome.splits)

lemma navigate_to_login_simps:
  "driver (snd (navigate_to_login w b)) = driver b"
  "milestones (events (snd (navigate_to_login w b))) = milestones (events b)"
  "results (snd (navigate_to_login w b)) = results b"
  "headless (snd (navigate_to_login w b)) = headless b"
  by (simp_all add: navigate_to_login_def split: option.splits)

lemma wait_for_manual_login_simps:
  "driver (snd (wait_for_manual_login w b)) = driver b"
  "milestones (events (snd (wait_for_manual_login w b))) = milestones (events b)"
  "results (snd (wait_for_manual_login w b)) = results b"
  "headless (snd (wait_for_manual_login w b)) = headless b"
  by (simp_all add: wait_for_manual_login_def split: option.splits)

lemma load_spreadsheet_milestones:
  "milestones (events (snd (load_spreadsheet f b)))
     = milestones (events b) @ (case fst (load_spreadsheet f b) of
                     Inl e \<Rightarrow> [] | Inr ws \<Rightarrow> [FinalCount (length (rows ws))])"
  by (simp add: load_spreadsheet_events split: sum.splits)

lemmas step_simps = setup_chrome_driver_simps navigate_to_login_simps
  wait_for_manual_login_simps load_spreadsheet_milestones

lemma run_body_driver:
  "driver (snd (run_body w f b)) = (case chrome w of ChromeFails e \<Rightarrow> driver b | _ \<Rightarrow> True)"
proof (cases "chrome w")
  case SetupOk
  then show ?thesis
    apply (simp add: run_body_unfold Let_def setup_chrome_driver_simps(1))
    apply (simp add: step_simps SetupOk Let_def split: sum.split)
    done
next
  case (ChromeFails e)
  then show ?thesis
    by (simp add: run_body_unfold Let_def step_simps)
next
  case (ScriptFails e)
  then show ?thesis
    by (simp add: run_body_unfold Let_def step_simps)
qed

lemma run_body_lifecycle_milestones:
  "lifecycle (milestones (events (snd (run_body w f b))))
     = lifecycle (milestones (events b))
       @ (case chrome w of ChromeFails e \<Rightarrow> [] | _ \<Rightarrow> [DriverCreated])"
proof (cases "chrome w")
  case SetupOk
  then show ?thesis
    apply (simp add: run_body_unfold Let_def setup_chrome_driver_simps(1))
    apply (simp add: step_simps SetupOk Let_def split: sum.split)
    done
next
  case (ChromeFails e)
  then show ?thesis
    by (simp add: run_body_unfold Let_def step_simps)
next
  case (ScriptFails e)
  then show ?thesis
    by (simp add: run_body_unfold Let_def step_simps)
qed

lemma run_body_lifecycle:
  "lifecycle (events (snd (run_body w f b)))
     = lifecycle (events b) @ (case chrome w of ChromeFails e \<Rightarrow> [] | _ \<Rightarrow> [DriverCreated])"
  using run_body_lifecycle_milestones [of w f b] by (simp add: lifecycle_milestones)

lemma run_snd:
  "snd (run f dl hl w b) = cleanup (snd (run_body w f (b\<lparr>delay := dl, headless := hl\<rparr>)))"
  by (simp add: run_def split: prod.split sum.split)

lemma events_cleanup:
  "events (cleanup b) = events b @ CleanupCalled # (if driver b then [DriverQuit] else [])"
  by (simp add: cleanup_def Let_def)

lemma no_cleanup_in_run_body:
  "CleanupCalled \<notin> set (events (snd (run_body w f (new_bot\<lparr>delay := dl, headless := hl\<rparr>))))"
proof -
  let ?es = "events (snd (run_body w f (new_bot\<lparr>delay := dl, headless := hl\<rparr>)))"
  have "CleanupCalled \<notin> set (lifecycle ?es)"
    by (simp add: run_body_lifecycle new_bot_def split: setup_outcome.split)
  then show ?thesis
    by (simp add: lifecycle_def)
qed

lemma run_lifecycle:
  "lifecycle (events (snd (run f dl hl w new_bot)))
     = (case chrome w of ChromeFails e \<Rightarrow> [CleanupCalled]
        | _ \<Rightarrow> [DriverCreated, CleanupCalled, DriverQuit])"
  by (simp add: run_snd events_cleanup run_body_lifecycle run_body_driver new_bot_def
           split: setup_outcome.split)

lemma run_after_cleanup:
  "dropWhile (\<lambda>e. e \<noteq> CleanupCalled) (events (snd (run f dl hl w new_bot)))
     = (case chrome w of ChromeFails e \<Rightarrow> [CleanupCalled] | _ \<Rightarrow> [CleanupCalled, DriverQuit])"
proof -
  let ?b = "snd (run_body w f (new_bot\<lparr>delay := dl, headless := hl\<rparr>))"
  have "dropWhile (\<lambda>e. e \<noteq> CleanupCalled) (events (cleanup ?b))
          = CleanupCalled # (if driver ?b then [DriverQuit] else [])"
    unfolding events_cleanup
    using no_cleanup_in_run_body [where w = w and f = f and dl = dl and hl = hl]
    by (subst dropWhile_append2) auto
  then show ?thesis
    by (simp add: run_snd run_body_driver new_bot_def split: setup_outcome.split)
qed

text \<open>
  C8. However a run ends (exit code 0, 2, 3 or 4, or an exception turned into exit
  code 1), \<open>run\<close> calls \<open>cleanup\<close> exactly once, and nothing follows that call but the
  \<open>driver.quit()\<close> it makes: the driver is quit exactly once, after it was created, and
  when \<open>webdriver.Chrome\<close> raised there is no driver and \<open>cleanup\<close> has nothing to quit.
\<close>

theorem run_cleanup_exactly_once:
  "lifecycle (events (snd (run f dl hl w new_bot)))
     = (case chrome w of ChromeFails e \<Rightarrow> [CleanupCalled]
        | _ \<Rightarrow> [DriverCreated, CleanupCalled, DriverQuit])
   \<and> dropWhile (\<lambda>e. e \<noteq> CleanupCalled) (events (snd (run f dl hl w new_bot)))
     = (case chrome w of ChromeFails e \<Rightarrow> [CleanupCalled] | _ \<Rightarrow> [CleanupCalled, DriverQuit])"
  by (simp only: run_lifecycle run_after_cleanup)

theorem run_cleanup_exactly_once_witness:
  "lifecycle (events (snd (run (Table sample_sheet) (-5) False sample_world new_bot)))
     = [DriverCreated, CleanupCalled, DriverQuit]
   \<and> lifecycle (events (snd (run Unreadable 5 True no_chrome_world new_bot))) = [CleanupCalled]"
  using run_cleanup_exactly_once [of "Table sample_sheet" "-5" False sample_world]
        run_cleanup_exactly_once [of Unreadable 5 True no_chrome_world]
  by (simp add: sample_world_def quiet_world_def no_chrome_world_def)

section \<open>Batch Runner: what ends the batch\<close>

text \<open>
  C4, at an input where it fails. \<open>process_posts\<close> has no handler of its own. With a
  negative \<open>delay\<close> the pacing sleep after the first post raises \<open>ValueError\<close>: the
  batch over the two rows of the WorkSet ends with that exception after one call of
  \<open>process_single_post\<close> and one record, and row 2 is never attempted. An exception
  that leaves \<open>process_single_post\<close> ends the batch in the same way, with no record.
\<close>

theorem process_posts_stops_early:
  "map fst (rows sample_workset) = [1, 2]
   \<and> fst (process_posts sample_world sample_workset (new_bot\<lparr>delay := -5\<rparr>))
       = Inl (ValueError ''sleep length must be non-negative'')
   \<and> item_calls (events (snd (process_posts sample_world sample_workset (new_bot\<lparr>delay := -5\<rparr>))))
       = [(1, 1)]
   \<and> map original_index (results (snd (process_posts sample_world sample_workset
                                         (new_bot\<lparr>delay := -5\<rparr>)))) = [1]
   \<and> fst (process_posts (quiet_world (\<lambda>n. Inl (WebDriverException ''no such window'')))
            sample_workset new_bot) = Inl (WebDriverException ''no such window'')
   \<and> results (snd (process_posts (quiet_world (\<lambda>n. Inl (WebDriverException ''no such window'')))
                     sample_workset new_bot)) = []"
  by code_simp

section \<open>Job Worker Loop: the final status\<close>





lemma cleanup_keeps [simp]:
  "results (cleanup b) = results b"
  "FinalCount k \<in> set (events (cleanup b)) \<longleftrightarrow> FinalCount k \<in> set (events b)"
  by (simp_all add: cleanup_def Let_def)







section \<open>Job Worker Loop: the first-run flag\<close>


lemma final_status_of_not_running [simp]: "final_status_of ec \<noteq> RUNNING"
  by (simp add: final_status_of_def)












section \<open>Row Ledger: the schema error\<close>

lemma item_calls_simps [simp]:
  "item_calls [] = []"
  "item_calls (xs @ ys) = item_calls xs @ item_calls ys"
  "item_calls (e # es) = (case e of ItemCall n idx \<Rightarrow> [(n, idx)] | _ \<Rightarrow> []) @ item_calls es"
  by (simp_all add: item_calls_def)









section \<open>Row Ledger: a status header that ends in a space\<close>

text \<open>
  \<open>load_spreadsheet\<close> keeps its copy of the sheet before it strips the column names,
  and takes the name of the status column from the stripped names. For the header
  \<open>"Status "\<close> the copy therefore has no column of the name \<open>"Status"\<close>, and a new
  column of that name is added to it; the marks go there, and the serialised ledger
  carries both \<open>"Status "\<close> and \<open>"Status"\<close>. Loading it again strips the two to one
  label, so that \<open>df[status_col]\<close> is a DataFrame and \<open>.str\<close> raises.
\<close>

text \<open>
  C9, at an input where it fails. The one row of the sheet is processed and fails; the
  mark \<open>N\<close> is written, next to the untouched column \<open>"Status "\<close>; the load of the
  serialised ledger raises \<open>AttributeError\<close> instead of giving a WorkSet with that row.
\<close>

theorem failed_row_not_reloaded:
  "map status (results (snd (run (Table padded_sheet) 5 False (quiet_world (\<lambda>n. Inr Failed)) new_bot)))
     = [Failed]
   \<and> get_updated_file_bytes
        (snd (run (Table padded_sheet) 5 False (quiet_world (\<lambda>n. Inr Failed)) new_bot))
     = Some \<lparr>header = [''url'', ''comment'', ''Status '', ''Status''],
             body = [[''http://b'', ''yo'', [], ''N'']]\<rparr>
   \<and> fst (load_spreadsheet
            (Table \<lparr>header = [''url'', ''comment'', ''Status '', ''Status''],
                    body = [[''http://b'', ''yo'', [], ''N'']]\<rparr>) new_bot)
     = Inl (AttributeError ''DataFrame object has no attribute str'')"
  by code_simp

text \<open>
  C6, at the same input. Row 0 of the loaded sheet is marked \<open>Y\<close> and the ledger is
  serialised: the bytes have four columns where the sheet had three, the cell of the
  original column \<open>"Status "\<close> is still empty, and loading the bytes again raises
  \<open>AttributeError\<close> instead of reproducing the dataset.
\<close>

theorem marked_ledger_not_reloaded:
  "header padded_sheet = [''url'', ''comment'', ''Status '']
   \<and> map fst (rows (the (original_df (snd (load_spreadsheet (Table padded_sheet) new_bot))))) = [0]
   \<and> get_updated_file_bytes
        (update_excel_file 0 ''Y'' (snd (load_spreadsheet (Table padded_sheet) new_bot)))
     = Some \<lparr>header = [''url'', ''comment'', ''Status '', ''Status''],
             body = [[''http://b'', ''yo'', [], ''Y'']]\<rparr>
   \<and> fst (load_spreadsheet
            (Table \<lparr>header = [''url'', ''comment'', ''Status '', ''Status''],
                    body = [[''http://b'', ''yo'', [], ''Y'']]\<rparr>) new_bot)
     = Inl (AttributeError ''DataFrame object has no attribute str'')"
  by code_simp

section \<open>Row Ledger: the rows of the WorkSet\<close>















section \<open>Batch Runner: the rows that are processed\<close>










section \<open>Row Ledger: blank and missing values\<close>




end
